theory Spec2Isabelle
  imports Main "HOL-Library.Sublist"
begin

section \<open>Safe-mode bootstrap guard (src/App/SafeMode.cpp)\<close>

text \<open>
  The C++ unit keeps one piece of process state, the pointer \<^verbatim>\<open>tempDir\<close>, and works on
  three things outside the process: the filesystem, the wall clock and the application's
  configuration map. The embedding makes all of them explicit.

  \<^item> What belongs to the process or to the disk and is changed by the code is a field of
    the record \<open>world\<close>: files, directories, the configuration map, the pointer, and the
    lines sent to \<^verbatim>\<open>qWarning()\<close>.
  \<^item> What the operating system answers, and the code cannot influence, is a field of the
    record \<open>os\<close>: the macro \<^verbatim>\<open>PATHSEP\<close> (declared in FCConfig.h, not part of this
    unit, hence a parameter), the temp location, the clock, whether an open, a remove or
    a mkpath succeeds, what \<^verbatim>\<open>new QTemporaryDir()\<close> yields, and the three text
    conversions of Qt that the unit calls.
  \<^item> A \<^verbatim>\<open>QDateTime\<close> is an integer number of milliseconds; \<^verbatim>\<open>secsTo\<close> divides the
    difference by 1000 and drops the fraction, as the integer division of C++ does.
  \<^item> A \<^verbatim>\<open>std::string\<close> and a file body are byte strings, \<open>string\<close>; a \<^verbatim>\<open>QString\<close> is a
    list of code units, \<open>qstring\<close>. \<^verbatim>\<open>QString::fromStdString\<close> and the decoding and encoding
    of \<^verbatim>\<open>QTextStream\<close> go from one to the other and are parameters; what the stream
    does on top of decoding when it reads, dropping every carriage return, is modelled.
  \<^item> Undefined behaviour of C++ (dereferencing or deleting a pointer that is not live) is
    a value of type \<open>fault\<close>; a function that can reach it returns \<open>fault + world\<close>.
\<close>

subsection \<open>Data\<close>

type_synonym path = string

type_synonym config = "string \<rightharpoonup> string"

type_synonym qstring = "nat list"

record qfile =
  lastModified :: int
  content :: string

text \<open>
  The three states of \<^verbatim>\<open>static QTemporaryDir * tempDir\<close>: the null pointer, a pointer to
  a live object owning the directory at the given path, and a pointer whose object has
  been deleted while the pointer kept its value.
\<close>

datatype tmpptr = Null | Live path | Dangling path

datatype fault = NullDeref | UseAfterFree | DoubleFree

record os =
  PATHSEP :: char
  TempLocation :: path
  currentDateTime :: int
  openRead :: "path \<Rightarrow> bool"
  openWrite :: "path \<Rightarrow> bool"
  removeOk :: "path \<Rightarrow> bool"
  mkpathOk :: "path \<Rightarrow> bool"
  newTemporaryDir :: "path option"
  fromStdString :: "string \<Rightarrow> qstring"
  decodeText :: "string \<Rightarrow> qstring"
  encodeText :: "qstring \<Rightarrow> string"

record world =
  files :: "path \<rightharpoonup> qfile"
  dirs :: "path set"
  Config :: config
  tempDir :: tmpptr
  warnings :: "string list"

subsection \<open>The configuration map\<close>

text \<open>
  \<^verbatim>\<open>std::map::operator[]\<close>: the value under the key, and a map in which an absent key
  has been inserted with the empty string.
\<close>

definition config_at :: "config \<Rightarrow> string \<Rightarrow> string \<times> config" where
  "config_at c k = (case c k of Some v \<Rightarrow> (v, c) | None \<Rightarrow> ('''', c(k \<mapsto> '''')))"

text \<open>\<^verbatim>\<open>std::map::count\<close>, as the condition of an \<^verbatim>\<open>if\<close>.\<close>

definition config_count :: "config \<Rightarrow> string \<Rightarrow> bool" where
  "config_count c k = (c k \<noteq> None)"

subsection \<open>Boot-marker store\<close>

definition getBootFailDetectionFileName :: "os \<Rightarrow> path" where
  "getBootFailDetectionFileName e = TempLocation e @ [PATHSEP e] @ ''FREECAD_BOOT_NOT_COMPLETE''"

text \<open>One optional part of the build identity: \<^verbatim>\<open>if (config.count(k)) fileContent += " " + config[k]\<close>.\<close>

definition appendIfPresent :: "string \<Rightarrow> string \<times> config \<Rightarrow> string \<times> config" where
  "appendIfPresent k sc =
     (let (fileContent, c) = sc in
      if config_count c k
      then (let (v, c') = config_at c k in (fileContent @ '' '' @ v, c'))
      else (fileContent, c))"

definition bootFileContent :: "config \<Rightarrow> string \<times> config" where
  "bootFileContent c =
     appendIfPresent ''BuildRevisionHash''
       (appendIfPresent ''BuildRevisionBranch'' (config_at c ''BuildRevision''))"

text \<open>
  \<^verbatim>\<open>a.secsTo(b)\<close> is \<^verbatim>\<open>a.msecsTo(b) / 1000\<close> on 64-bit integers: the quotient is
  rounded towards zero.
\<close>

definition secsTo :: "int \<Rightarrow> int \<Rightarrow> int" where
  "secsTo a b = (if b - a < 0 then - ((a - b) div 1000) else (b - a) div 1000)"

text \<open>
  \<^verbatim>\<open>QTextStream::readAll\<close> on a file opened with \<^verbatim>\<open>QFile::Text\<close>: the bytes are decoded
  and every carriage return (code unit 13) is removed.
\<close>

definition readAll :: "os \<Rightarrow> string \<Rightarrow> qstring" where
  "readAll e body = filter (\<lambda>c. c \<noteq> 13) (decodeText e body)"

definition didBootFailRecently :: "os \<Rightarrow> world \<Rightarrow> bool \<times> world" where
  "didBootFailRecently e w =
     (let filename = getBootFailDetectionFileName e in
      case files w filename of
        None \<Rightarrow> (False, w)
      | Some fileInfo \<Rightarrow>
          (let timeDifference = secsTo (lastModified fileInfo) (currentDateTime e);
               secondsPerHour = 3600 in
           if timeDifference > 12 * secondsPerHour then (False, w)
           else if \<not> openRead e filename then (False, w)
           else (let content' = readAll e (content fileInfo);
                     (ident, c) = bootFileContent (Config w) in
                 if content' \<noteq> fromStdString e ident then (False, w\<lparr>Config := c\<rparr>)
                 else (True, w\<lparr>Config := c\<rparr>))))"

text \<open>
  \<^verbatim>\<open>stream << QString::fromStdString(_bootFileContent())\<close> on a file opened with
  \<^verbatim>\<open>QFile::WriteOnly\<close>: the body is the encoding of the converted identity.
\<close>

definition createBootFile :: "os \<Rightarrow> world \<Rightarrow> world" where
  "createBootFile e w =
     (let bootFilePath = getBootFailDetectionFileName e in
      if \<not> openWrite e bootFilePath then w
      else (let (ident, c) = bootFileContent (Config w) in
            w\<lparr>files := (files w)(bootFilePath \<mapsto>
                  \<lparr>lastModified = currentDateTime e,
                   content = encodeText e (fromStdString e ident)\<rparr>),
              Config := c\<rparr>))"

subsection \<open>Scratch profile provisioner\<close>

text \<open>
  \<^verbatim>\<open>tempDir = new QTemporaryDir()\<close> overwrites the pointer whatever it held; an invalid
  object is deleted again and the pointer reset to null. The result is the pointer as
  a truth value.
\<close>

definition createTemporaryBaseDir :: "os \<Rightarrow> world \<Rightarrow> bool \<times> world" where
  "createTemporaryBaseDir e w =
     (case newTemporaryDir e of
        None \<Rightarrow> (False, w\<lparr>tempDir := Null\<rparr>)
      | Some p \<Rightarrow> (True, w\<lparr>dirs := insert p (dirs w), tempDir := Live p\<rparr>))"

subsection \<open>Configuration rebinder\<close>

text \<open>\<^verbatim>\<open>QDir().mkpath(p)\<close>: afterwards the directory exists when it did before or could be
  created. The result is discarded by the caller, so only the effect is modelled.\<close>

definition mkpath :: "os \<Rightarrow> path \<Rightarrow> world \<Rightarrow> world" where
  "mkpath e p w = (if p \<in> dirs w \<or> mkpathOk e p then w\<lparr>dirs := insert p (dirs w)\<rparr> else w)"

definition profile_dirs :: "string list" where
  "profile_dirs =
     [''UserAppData'', ''UserConfigPath'', ''UserCachePath'',
      ''AppTempPath'', ''UserMacroPath'', ''UserHomePath'']"

definition scratch_path :: "os \<Rightarrow> path \<Rightarrow> string \<Rightarrow> path" where
  "scratch_path e temp_base d = temp_base @ [PATHSEP e] @ d @ [PATHSEP e]"

text \<open>The body of the loop over \<^verbatim>\<open>dirs\<close>, and the loop.\<close>

definition replaceDir :: "os \<Rightarrow> path \<Rightarrow> string \<Rightarrow> world \<Rightarrow> world" where
  "replaceDir e temp_base d w =
     (let path = scratch_path e temp_base d;
          w1 = mkpath e path w in
      w1\<lparr>Config := (Config w1)(d \<mapsto> path)\<rparr>)"

primrec replaceDirs_loop :: "os \<Rightarrow> path \<Rightarrow> string list \<Rightarrow> world \<Rightarrow> world" where
  "replaceDirs_loop e temp_base [] w = w"
| "replaceDirs_loop e temp_base (d # ds) w =
     replaceDirs_loop e temp_base ds (replaceDir e temp_base d w)"

definition replaceDirs :: "os \<Rightarrow> world \<Rightarrow> fault + world" where
  "replaceDirs e w =
     (case tempDir w of
        Null \<Rightarrow> Inl NullDeref
      | Dangling p \<Rightarrow> Inl UseAfterFree
      | Live temp_base \<Rightarrow> Inr (replaceDirs_loop e temp_base profile_dirs w))"

subsection \<open>Safe-mode controller\<close>

definition BootUpComplete :: "os \<Rightarrow> world \<Rightarrow> world" where
  "BootUpComplete e w =
     (let bootFilePath = getBootFailDetectionFileName e in
      if files w bootFilePath \<noteq> None \<and> removeOk e bootFilePath
      then w\<lparr>files := (files w)(bootFilePath := None)\<rparr>
      else w)"

definition qWarning :: "string \<Rightarrow> world \<Rightarrow> world" where
  "qWarning msg w = w\<lparr>warnings := warnings w @ [msg]\<rparr>"

definition InitializeSafeMode :: "os \<Rightarrow> bool \<Rightarrow> world \<Rightarrow> fault + world" where
  "InitializeSafeMode e forceSafeMode w =
     (let (bootFailedPreviously, w1) = didBootFailRecently e w;
          w2 = createBootFile e w1 in
      if bootFailedPreviously \<or> forceSafeMode then
        (let (created, w3) = createTemporaryBaseDir e w2 in
         if created then
           replaceDirs e
             (if bootFailedPreviously
              then qWarning ''Failed boot detected, entering safe mode!'' w3
              else w3)
         else Inr w3)
      else Inr w2)"

definition SafeModeEnabled :: "world \<Rightarrow> bool" where
  "SafeModeEnabled w = (tempDir w \<noteq> Null)"

text \<open>
  A path lies in the tree of a directory when it is the directory or begins with the
  directory followed by the separator.
\<close>

definition under :: "os \<Rightarrow> path \<Rightarrow> path \<Rightarrow> bool" where
  "under e root p = (p = root \<or> prefix (root @ [PATHSEP e]) p)"

text \<open>
  \<^verbatim>\<open>delete tempDir\<close>: nothing on the null pointer; on a live object the destructor of
  \<^verbatim>\<open>QTemporaryDir\<close> removes the tree, and the pointer keeps its value; on a pointer
  whose object is gone already, a second delete.
\<close>

definition Destruct :: "os \<Rightarrow> world \<Rightarrow> fault + world" where
  "Destruct e w =
     (case tempDir w of
        Null \<Rightarrow> Inr w
      | Live p \<Rightarrow>
          Inr (w\<lparr>files := (\<lambda>q. if under e p q then None else files w q),
                 dirs := Set.filter (\<lambda>q. \<not> under e p q) (dirs w),
                 tempDir := Dangling p\<rparr>)
      | Dangling p \<Rightarrow> Inl DoubleFree)"

subsection \<open>Sequences of calls to the public operations\<close>

text \<open>
  A call carries what the operating system answers during it, so the clock and the
  answers may differ from one call to the next. \<open>run\<close> performs the calls in order,
  stops at the first fault, and collects the values returned by \<^verbatim>\<open>SafeModeEnabled\<close>.
\<close>

datatype call =
  CInitializeSafeMode os bool
| CBootUpComplete os
| CSafeModeEnabled
| CDestruct os

fun call_effect :: "call \<Rightarrow> world \<Rightarrow> fault + world" where
  "call_effect (CInitializeSafeMode e forceSafeMode) w = InitializeSafeMode e forceSafeMode w"
| "call_effect (CBootUpComplete e) w = Inr (BootUpComplete e w)"
| "call_effect CSafeModeEnabled w = Inr w"
| "call_effect (CDestruct e) w = Destruct e w"

fun call_answer :: "call \<Rightarrow> world \<Rightarrow> bool list" where
  "call_answer CSafeModeEnabled w = [SafeModeEnabled w]"
| "call_answer c w = []"

fun run :: "call list \<Rightarrow> world \<Rightarrow> fault + bool list" where
  "run [] w = Inr []"
| "run (c # cs) w =
     (case call_effect c w of
        Inl f \<Rightarrow> Inl f
      | Inr w' \<Rightarrow>
          (case run cs w' of
             Inl f \<Rightarrow> Inl f
           | Inr answers \<Rightarrow> Inr (call_answer c w @ answers)))"

text \<open>
  Which operation a call is. The contract of the controller has \<^verbatim>\<open>InitializeSafeMode\<close>
  called once in a process, early in startup, and \<^verbatim>\<open>Destruct\<close> at shutdown.
\<close>

fun is_Destruct :: "call \<Rightarrow> bool" where
  "is_Destruct (CDestruct e) = True"
| "is_Destruct c = False"

fun is_InitializeSafeMode :: "call \<Rightarrow> bool" where
  "is_InitializeSafeMode (CInitializeSafeMode e forceSafeMode) = True"
| "is_InitializeSafeMode c = False"

subsection \<open>The specification's wording of the marker test\<close>

text \<open>
  The build identity as the specification describes it: the value of \<open>BuildRevision\<close>
  (nothing when the key is absent), then a space and the branch when the key
  \<open>BuildRevisionBranch\<close> is present, then a space and the hash when the key
  \<open>BuildRevisionHash\<close> is present.
\<close>

definition spec_build_identity :: "config \<Rightarrow> string" where
  "spec_build_identity c =
     (case c ''BuildRevision'' of None \<Rightarrow> '''' | Some r \<Rightarrow> r)
     @ (case c ''BuildRevisionBranch'' of None \<Rightarrow> '''' | Some b \<Rightarrow> '' '' @ b)
     @ (case c ''BuildRevisionHash'' of None \<Rightarrow> '''' | Some h \<Rightarrow> '' '' @ h)"

text \<open>
  The marker test as the specification describes it: the marker exists at
  \<open><system_temp>/FREECAD_BOOT_NOT_COMPLETE\<close>, its last-modified time is no more than twelve
  hours (in milliseconds, as the time stamps are) older than the clock, and its body,
  which must be readable, is byte-equal to the build identity.
\<close>

definition spec_recent_failure :: "os \<Rightarrow> world \<Rightarrow> bool" where
  "spec_recent_failure e w =
     (case files w (TempLocation e @ [PATHSEP e] @ ''FREECAD_BOOT_NOT_COMPLETE'') of
        None \<Rightarrow> False
      | Some marker \<Rightarrow>
          currentDateTime e - lastModified marker \<le> 12 * 60 * 60 * 1000
          \<and> openRead e (TempLocation e @ [PATHSEP e] @ ''FREECAD_BOOT_NOT_COMPLETE'')
          \<and> content marker = spec_build_identity (Config w))"

subsection \<open>Intermediate states of \<open>InitializeSafeMode\<close>\<close>

text \<open>The world after the first two statements: the marker test, then the marker write.\<close>

definition marker_after :: "os \<Rightarrow> world \<Rightarrow> world" where
  "marker_after e w = createBootFile e (snd (didBootFailRecently e w))"

definition warning_text :: string where
  "warning_text = ''Failed boot detected, entering safe mode!''"

text \<open>The world on entry to \<open>replaceDirs\<close>: scratch root \<open>p\<close> created, warning sent when \<open>d\<close>.\<close>

definition provisioned :: "os \<Rightarrow> path \<Rightarrow> bool \<Rightarrow> world \<Rightarrow> world" where
  "provisioned e p d w =
     (marker_after e w)
       \<lparr>dirs := insert p (dirs w), tempDir := Live p,
        warnings := warnings w @ (if d then [warning_text] else [])\<rparr>"

subsection \<open>Concrete systems and worlds\<close>

text \<open>
  A system where everything succeeds and text is ASCII (a byte is its code unit), one where
  no directory can be created, and one where the temporary directory cannot be created; a
  fresh process on a clean disk, the same after a launch of the same build left its marker
  behind at time \<open>mtime\<close>, the same with a carriage return after the marker's body, and
  the clean disk with an empty configuration map.
\<close>

definition os_ok :: os where
  "os_ok =
     \<lparr>PATHSEP = CHR ''/'', TempLocation = ''/tmp'', currentDateTime = 1700000000000,
      openRead = (\<lambda>p. True), openWrite = (\<lambda>p. True), removeOk = (\<lambda>p. True),
      mkpathOk = (\<lambda>p. True), newTemporaryDir = Some ''/tmp/FreeCAD-aB3dEf'',
      fromStdString = map of_char, decodeText = map of_char, encodeText = map char_of\<rparr>"

definition os_nomkdir :: os where
  "os_nomkdir = os_ok\<lparr>mkpathOk := (\<lambda>p. False)\<rparr>"

definition os_noprov :: os where
  "os_noprov = os_ok\<lparr>newTemporaryDir := None\<rparr>"

definition world0 :: world where
  "world0 =
     \<lparr>files = Map.empty, dirs = {''/tmp''},
      Config = [''BuildRevision'' \<mapsto> ''1.0'', ''BuildRevisionBranch'' \<mapsto> ''main'',
                ''BuildRevisionHash'' \<mapsto> ''cafef00d''],
      tempDir = Null, warnings = []\<rparr>"

definition world_crashed :: "int \<Rightarrow> world" where
  "world_crashed mtime =
     world0\<lparr>files := [''/tmp/FREECAD_BOOT_NOT_COMPLETE'' \<mapsto>
                \<lparr>lastModified = mtime, content = ''1.0 main cafef00d''\<rparr>]\<rparr>"

definition world_crashed_cr :: "int \<Rightarrow> world" where
  "world_crashed_cr mtime =
     world0\<lparr>files := [''/tmp/FREECAD_BOOT_NOT_COMPLETE'' \<mapsto>
                \<lparr>lastModified = mtime, content = ''1.0 main cafef00d'' @ [CHR 0x0D]\<rparr>]\<rparr>"

definition world_norev :: world where
  "world_norev = world0\<lparr>Config := Map.empty\<rparr>"

section \<open>Properties of the operations\<close>

subsection \<open>The build identity and the configuration map\<close>

lemma appendIfPresent_eq:
  "appendIfPresent k (s, c) = (s @ (case c k of None \<Rightarrow> '''' | Some v \<Rightarrow> '' '' @ v), c)"
  by (simp add: appendIfPresent_def config_count_def config_at_def split: option.split)

lemma bootFileContent_fst: "fst (bootFileContent c) = spec_build_identity c"
  by (cases "c ''BuildRevision''")
    (simp_all add: bootFileContent_def config_at_def appendIfPresent_eq spec_build_identity_def)

lemma bootFileContent_snd:
  "snd (bootFileContent c) = (if c ''BuildRevision'' = None then c(''BuildRevision'' \<mapsto> '''') else c)"
  by (cases "c ''BuildRevision''")
    (simp_all add: bootFileContent_def config_at_def appendIfPresent_eq)

lemma bootFileContent_other: "k \<noteq> ''BuildRevision'' \<Longrightarrow> snd (bootFileContent c) k = c k"
  by (simp add: bootFileContent_snd)

lemma bootFileContent_idem:
  "bootFileContent (snd (bootFileContent c)) = (fst (bootFileContent c), snd (bootFileContent c))"
  by (cases "c ''BuildRevision''")
    (simp_all add: bootFileContent_def config_at_def appendIfPresent_eq)

subsection \<open>Seconds between two time stamps\<close>

lemma secsTo_le_iff: "(secsTo a b \<le> 43200) = (b - a < 43201000)"
  by (auto simp: secsTo_def)

lemma secsTo_gt_iff: "(43200 < secsTo a b) = (43201000 \<le> b - a)"
  using secsTo_le_iff [of a b] by auto

lemma secsTo_same: "secsTo a a = 0"
  by (simp add: secsTo_def)

subsection \<open>The marker test and the marker write\<close>

lemma didBootFailRecently_snd:
  "snd (didBootFailRecently e w) =
     (case files w (getBootFailDetectionFileName e) of
        None \<Rightarrow> w
      | Some marker \<Rightarrow>
          if secsTo (lastModified marker) (currentDateTime e) \<le> 12 * 3600
             \<and> openRead e (getBootFailDetectionFileName e)
          then w\<lparr>Config := snd (bootFileContent (Config w))\<rparr>
          else w)"
  by (auto simp: didBootFailRecently_def Let_def split: option.split prod.split)

lemma didBootFailRecently_frame:
  "files (snd (didBootFailRecently e w)) = files w"
  "dirs (snd (didBootFailRecently e w)) = dirs w"
  "tempDir (snd (didBootFailRecently e w)) = tempDir w"
  "warnings (snd (didBootFailRecently e w)) = warnings w"
  by (simp_all add: didBootFailRecently_snd split: option.split)

lemma didBootFailRecently_Config:
  "Config (snd (didBootFailRecently e w)) = Config w
   \<or> Config (snd (didBootFailRecently e w)) = snd (bootFileContent (Config w))"
  by (simp add: didBootFailRecently_snd split: option.split)

lemma createBootFile_eq:
  "createBootFile e w =
     (if openWrite e (getBootFailDetectionFileName e)
      then w\<lparr>files := (files w)(getBootFailDetectionFileName e \<mapsto>
                \<lparr>lastModified = currentDateTime e,
                 content = encodeText e (fromStdString e (fst (bootFileContent (Config w))))\<rparr>),
             Config := snd (bootFileContent (Config w))\<rparr>
      else w)"
  by (simp add: createBootFile_def Let_def split: prod.split)

lemma createBootFile_frame:
  "dirs (createBootFile e w) = dirs w"
  "tempDir (createBootFile e w) = tempDir w"
  "warnings (createBootFile e w) = warnings w"
  by (simp_all add: createBootFile_eq)

lemma marker_after_frame:
  "dirs (marker_after e w) = dirs w"
  "tempDir (marker_after e w) = tempDir w"
  "warnings (marker_after e w) = warnings w"
  by (simp_all add: marker_after_def createBootFile_frame didBootFailRecently_frame)

lemma marker_after_Config:
  "k \<noteq> ''BuildRevision'' \<Longrightarrow> Config (marker_after e w) k = Config w k"
  using didBootFailRecently_Config [of e w]
  by (auto simp: marker_after_def createBootFile_eq bootFileContent_other)

subsection \<open>The rebinder's loop\<close>

lemma replaceDir_frame:
  "files (replaceDir e b d w) = files w"
  "tempDir (replaceDir e b d w) = tempDir w"
  "warnings (replaceDir e b d w) = warnings w"
  by (simp_all add: replaceDir_def mkpath_def Let_def)

lemma replaceDirs_loop_frame:
  "files (replaceDirs_loop e b ds w) = files w"
  "tempDir (replaceDirs_loop e b ds w) = tempDir w"
  "warnings (replaceDirs_loop e b ds w) = warnings w"
  by (induction ds arbitrary: w; simp add: replaceDir_frame)+

lemma replaceDirs_loop_Config:
  "Config (replaceDirs_loop e b ds w) k =
     (if k \<in> set ds then Some (scratch_path e b k) else Config w k)"
  by (induction ds arbitrary: w) (auto simp: replaceDir_def mkpath_def Let_def)

lemma replaceDirs_loop_dirs:
  "dirs (replaceDirs_loop e b ds w) =
     dirs w \<union> {p \<in> scratch_path e b ` set ds. mkpathOk e p}"
  by (induction ds arbitrary: w) (auto simp: replaceDir_def mkpath_def Let_def)

subsection \<open>\<open>InitializeSafeMode\<close> in one equation\<close>

lemma warnings_same: "warnings r = v \<Longrightarrow> r\<lparr>warnings := v\<rparr> = r"
  by auto

lemma InitializeSafeMode_eq:
  "InitializeSafeMode e force w =
     Inr (if fst (didBootFailRecently e w) \<or> force
          then (case newTemporaryDir e of
                  None \<Rightarrow> (marker_after e w)\<lparr>tempDir := Null\<rparr>
                | Some p \<Rightarrow>
                    replaceDirs_loop e p profile_dirs
                      (provisioned e p (fst (didBootFailRecently e w)) w))
          else marker_after e w)"
  by (simp add: InitializeSafeMode_def marker_after_def [symmetric] createTemporaryBaseDir_def
      replaceDirs_def warning_text_def provisioned_def marker_after_frame qWarning_def
      warnings_same Let_def split_beta split: option.split)

lemma InitializeSafeMode_tempDir:
  "InitializeSafeMode e force w = Inr w' \<Longrightarrow>
   tempDir w' =
     (if fst (didBootFailRecently e w) \<or> force
      then (case newTemporaryDir e of None \<Rightarrow> Null | Some p \<Rightarrow> Live p)
      else tempDir w)"
  by (auto simp: InitializeSafeMode_eq replaceDirs_loop_frame provisioned_def
      marker_after_frame split: option.split)

lemma InitializeSafeMode_warnings:
  "InitializeSafeMode e force w = Inr w' \<Longrightarrow>
   warnings w' =
     warnings w @
       (if fst (didBootFailRecently e w) \<and> newTemporaryDir e \<noteq> None
        then [warning_text] else [])"
  by (auto simp: InitializeSafeMode_eq replaceDirs_loop_frame provisioned_def
      marker_after_frame split: option.split)

lemma InitializeSafeMode_Config:
  "InitializeSafeMode e force w = Inr w' \<Longrightarrow> k \<in> set profile_dirs \<Longrightarrow>
   Config w' k =
     (if fst (didBootFailRecently e w) \<or> force
      then (case newTemporaryDir e of None \<Rightarrow> Config w k | Some p \<Rightarrow> Some (scratch_path e p k))
      else Config w k)"
proof -
  assume k: "k \<in> set profile_dirs" and i: "InitializeSafeMode e force w = Inr w'"
  from k have "k \<noteq> ''BuildRevision''"
    by (auto simp: profile_dirs_def)
  then have "Config (marker_after e w) k = Config w k"
    by (rule marker_after_Config)
  with k i show ?thesis
    by (auto simp: InitializeSafeMode_eq replaceDirs_loop_Config provisioned_def
        split: option.split)
qed

lemma InitializeSafeMode_dirs:
  "InitializeSafeMode e force w = Inr w' \<Longrightarrow>
   dirs w' =
     (if fst (didBootFailRecently e w) \<or> force
      then (case newTemporaryDir e of
              None \<Rightarrow> dirs w
            | Some p \<Rightarrow> insert p (dirs w) \<union> {q \<in> scratch_path e p ` set profile_dirs. mkpathOk e q})
      else dirs w)"
  by (auto simp: InitializeSafeMode_eq replaceDirs_loop_dirs provisioned_def
      marker_after_frame split: option.split)

lemma InitializeSafeMode_files:
  "InitializeSafeMode e force w = Inr w' \<Longrightarrow> files w' = files (marker_after e w)"
  by (auto simp: InitializeSafeMode_eq replaceDirs_loop_frame provisioned_def
      split: option.split)

subsection \<open>The concrete systems\<close>

lemma marker_ok: "getBootFailDetectionFileName os_ok = ''/tmp/FREECAD_BOOT_NOT_COMPLETE''"
  by (simp add: getBootFailDetectionFileName_def os_ok_def)

lemma ident0: "bootFileContent (Config world0) = (''1.0 main cafef00d'', Config world0)"
  by (simp add: bootFileContent_def config_at_def appendIfPresent_def config_count_def world0_def)

lemma read_ident0:
  "readAll os_ok ''1.0 main cafef00d'' = fromStdString os_ok ''1.0 main cafef00d''"
  "readAll os_ok (''1.0 main cafef00d'' @ [CHR 0x0D]) = fromStdString os_ok ''1.0 main cafef00d''"
  by (simp_all add: readAll_def os_ok_def)

lemma ascii_roundtrip: "encodeText os_ok (fromStdString os_ok s) = s"
  by (simp add: os_ok_def comp_def)

subsection \<open>Further facts about \<open>InitializeSafeMode\<close>\<close>

lemma InitializeSafeMode_total: "\<exists>w'. InitializeSafeMode e force w = Inr w'"
  by (simp add: InitializeSafeMode_eq)

lemma InitializeSafeMode_Config_other:
  "InitializeSafeMode e force w = Inr w' \<Longrightarrow> k \<notin> set profile_dirs \<Longrightarrow>
   Config w' k = Config (marker_after e w) k"
  by (auto simp: InitializeSafeMode_eq replaceDirs_loop_Config provisioned_def
      split: option.split if_splits)

lemma marker_after_written:
  assumes "openWrite e (getBootFailDetectionFileName e)"
  shows "files (marker_after e w) (getBootFailDetectionFileName e) =
           Some \<lparr>lastModified = currentDateTime e,
                 content = encodeText e (fromStdString e (fst (bootFileContent (Config w))))\<rparr>"
    and "Config (marker_after e w) = snd (bootFileContent (Config w))"
  using assms didBootFailRecently_Config [of e w]
  by (auto simp: marker_after_def createBootFile_eq bootFileContent_idem)

lemma didBootFailRecently_fst:
  "fst (didBootFailRecently e w) =
     (case files w (getBootFailDetectionFileName e) of
        None \<Rightarrow> False
      | Some marker \<Rightarrow>
          secsTo (lastModified marker) (currentDateTime e) \<le> 12 * 3600
          \<and> openRead e (getBootFailDetectionFileName e)
          \<and> readAll e (content marker) = fromStdString e (spec_build_identity (Config w)))"
  using bootFileContent_fst [of "Config w"]
  by (auto simp: didBootFailRecently_def Let_def split: option.split prod.split)

lemma spec_build_identity_cong:
  assumes "c' ''BuildRevision'' = c ''BuildRevision''
           \<or> (c ''BuildRevision'' = None \<and> c' ''BuildRevision'' = Some '''')"
    and "c' ''BuildRevisionBranch'' = c ''BuildRevisionBranch''"
    and "c' ''BuildRevisionHash'' = c ''BuildRevisionHash''"
  shows "spec_build_identity c' = spec_build_identity c"
  using assms by (auto simp: spec_build_identity_def)

lemma identity_after_marker:
  assumes "InitializeSafeMode e force w = Inr w'"
    and "openWrite e (getBootFailDetectionFileName e)"
  shows "spec_build_identity (Config w') = spec_build_identity (Config w)"
proof (rule spec_build_identity_cong)
  have k: "Config w' k = snd (bootFileContent (Config w)) k" if "k \<notin> set profile_dirs" for k
    using InitializeSafeMode_Config_other [OF assms(1) that] marker_after_written(2) [OF assms(2)]
    by simp
  have "''BuildRevision'' \<notin> set profile_dirs"
    by (simp add: profile_dirs_def)
  from k [OF this]
  show "Config w' ''BuildRevision'' = Config w ''BuildRevision''
        \<or> (Config w ''BuildRevision'' = None \<and> Config w' ''BuildRevision'' = Some '''')"
    by (simp add: bootFileContent_snd)
  have "''BuildRevisionBranch'' \<notin> set profile_dirs"
    by (simp add: profile_dirs_def)
  from k [OF this]
  show "Config w' ''BuildRevisionBranch'' = Config w ''BuildRevisionBranch''"
    by (simp add: bootFileContent_snd)
  have "''BuildRevisionHash'' \<notin> set profile_dirs"
    by (simp add: profile_dirs_def)
  from k [OF this]
  show "Config w' ''BuildRevisionHash'' = Config w ''BuildRevisionHash''"
    by (simp add: bootFileContent_snd)
qed

lemma clean_no_failure: "\<not> fst (didBootFailRecently e world0)"
  by (simp add: didBootFailRecently_def world0_def)

subsection \<open>Scratch paths\<close>

lemma scratch_path_under: "under e root (scratch_path e root k)"
  by (simp add: under_def scratch_path_def)

lemma scratch_path_last: "last (scratch_path e root k) = PATHSEP e"
  by (simp add: scratch_path_def)

lemma scratch_path_neq: "scratch_path e root k \<noteq> root"
  by (simp add: scratch_path_def)

subsection \<open>Teardown and call sequences\<close>

lemma Destruct_Live:
  "tempDir w = Live p \<Longrightarrow>
   \<exists>w2. Destruct e w = Inr w2 \<and> tempDir w2 = Dangling p \<and> Destruct e w2 = Inl DoubleFree"
  by (simp add: Destruct_def)

lemma BootUpComplete_tempDir: "tempDir (BootUpComplete e w) = tempDir w"
  by (simp add: BootUpComplete_def Let_def)

subsection \<open>The concrete worlds under the marker test\<close>

lemma os_noprov_text:
  "getBootFailDetectionFileName os_noprov = getBootFailDetectionFileName os_ok"
  "readAll os_noprov body = readAll os_ok body"
  "fromStdString os_noprov s = fromStdString os_ok s"
  "openRead os_noprov = openRead os_ok"
  "currentDateTime os_noprov = currentDateTime os_ok"
  by (simp_all add: os_noprov_def getBootFailDetectionFileName_def readAll_def)

lemma identity_crashed:
  "spec_build_identity (Config (world_crashed t)) = ''1.0 main cafef00d''"
  "spec_build_identity (Config (world_crashed_cr t)) = ''1.0 main cafef00d''"
  using ident0 bootFileContent_fst [of "Config world0"]
  by (simp_all add: world_crashed_def world_crashed_cr_def)

lemma os_ok_facts:
  "currentDateTime os_ok = 1700000000000"
  "openRead os_ok p"
  "openWrite os_ok p"
  by (simp_all add: os_ok_def)

lemma files_crashed:
  "files (world_crashed t) ''/tmp/FREECAD_BOOT_NOT_COMPLETE'' =
     Some \<lparr>lastModified = t, content = ''1.0 main cafef00d''\<rparr>"
  "files (world_crashed_cr t) ''/tmp/FREECAD_BOOT_NOT_COMPLETE'' =
     Some \<lparr>lastModified = t, content = ''1.0 main cafef00d'' @ [CHR 0x0D]\<rparr>"
  by (simp_all add: world_crashed_def world_crashed_cr_def)

lemma detect_crashed:
  "fst (didBootFailRecently os_ok (world_crashed t)) = (1700000000000 - t < 43201000)"
  "fst (didBootFailRecently os_noprov (world_crashed t)) = (1700000000000 - t < 43201000)"
  by (simp_all add: didBootFailRecently_fst os_noprov_text marker_ok files_crashed
      identity_crashed read_ident0 secsTo_le_iff os_ok_facts)

lemma detect_crashed_cr:
  "fst (didBootFailRecently os_ok (world_crashed_cr t)) = (1700000000000 - t < 43201000)"
  by (simp add: didBootFailRecently_fst marker_ok files_crashed
      identity_crashed read_ident0 secsTo_le_iff os_ok_facts del: append.simps)

lemma spec_crashed:
  "spec_recent_failure os_ok (world_crashed t) = (1700000000000 - t \<le> 43200000)"
  "\<not> spec_recent_failure os_ok (world_crashed_cr t)"
  using marker_ok
  by (simp_all add: spec_recent_failure_def getBootFailDetectionFileName_def files_crashed
      identity_crashed os_ok_facts)

subsection \<open>Call sequences\<close>

lemma constant_sorted: "\<forall>a\<in>set xs. a = b \<Longrightarrow> sorted xs"
  by (induction xs) auto

lemma run_without_InitializeSafeMode:
  "\<forall>c\<in>set cs. \<not> is_Destruct c \<and> \<not> is_InitializeSafeMode c \<Longrightarrow>
   \<exists>answers. run cs w = Inr answers \<and> (\<forall>a\<in>set answers. a = SafeModeEnabled w)"
proof (induction cs arbitrary: w)
  case Nil
  then show ?case by simp
next
  case (Cons c cs)
  from Cons.prems have rest: "\<forall>c\<in>set cs. \<not> is_Destruct c \<and> \<not> is_InitializeSafeMode c"
    by simp
  show ?case
  proof (cases c)
    case (CInitializeSafeMode e force)
    with Cons.prems show ?thesis by simp
  next
    case (CBootUpComplete e)
    from Cons.IH [OF rest, of "BootUpComplete e w"]
    obtain answers where "run cs (BootUpComplete e w) = Inr answers"
      and "\<forall>a\<in>set answers. a = SafeModeEnabled (BootUpComplete e w)"
      by blast
    with CBootUpComplete show ?thesis
      by (simp add: SafeModeEnabled_def BootUpComplete_tempDir)
  next
    case CSafeModeEnabled
    from Cons.IH [OF rest, of w]
    obtain answers where "run cs w = Inr answers" and "\<forall>a\<in>set answers. a = SafeModeEnabled w"
      by blast
    with CSafeModeEnabled show ?thesis
      by simp
  next
    case (CDestruct e)
    with Cons.prems show ?thesis by simp
  qed
qed

lemma run_one_InitializeSafeMode:
  "tempDir w = Null \<Longrightarrow> \<forall>c\<in>set cs. \<not> is_Destruct c \<Longrightarrow>
   length (filter is_InitializeSafeMode cs) \<le> 1 \<Longrightarrow>
   \<exists>answers. run cs w = Inr answers \<and> sorted answers"
proof (induction cs arbitrary: w)
  case Nil
  then show ?case by simp
next
  case (Cons c cs)
  from Cons.prems(2) have nd: "\<forall>c\<in>set cs. \<not> is_Destruct c"
    by simp
  show ?case
  proof (cases c)
    case (CInitializeSafeMode e force)
    with Cons.prems(3) have "filter is_InitializeSafeMode cs = []"
      by simp
    then have "\<forall>c\<in>set cs. \<not> is_InitializeSafeMode c"
      by (simp add: filter_empty_conv)
    with nd have rest: "\<forall>c\<in>set cs. \<not> is_Destruct c \<and> \<not> is_InitializeSafeMode c"
      by simp
    obtain w' where i: "InitializeSafeMode e force w = Inr w'"
      using InitializeSafeMode_total by blast
    from run_without_InitializeSafeMode [OF rest, of w']
    obtain answers where r: "run cs w' = Inr answers"
      and a: "\<forall>a\<in>set answers. a = SafeModeEnabled w'"
      by blast
    from a have "sorted answers"
      by (rule constant_sorted)
    moreover from CInitializeSafeMode i r have "run (c # cs) w = Inr answers"
      by simp
    ultimately show ?thesis
      by blast
  next
    case (CBootUpComplete e)
    from Cons.prems(3) CBootUpComplete have le: "length (filter is_InitializeSafeMode cs) \<le> 1"
      by simp
    have "tempDir (BootUpComplete e w) = Null"
      using Cons.prems(1) by (simp add: BootUpComplete_tempDir)
    from Cons.IH [OF this nd le]
    obtain answers where r: "run cs (BootUpComplete e w) = Inr answers" and s: "sorted answers"
      by blast
    from CBootUpComplete r have "run (c # cs) w = Inr answers"
      by simp
    with s show ?thesis
      by blast
  next
    case CSafeModeEnabled
    from Cons.prems(3) CSafeModeEnabled have le: "length (filter is_InitializeSafeMode cs) \<le> 1"
      by simp
    from Cons.IH [OF Cons.prems(1) nd le]
    obtain answers where r: "run cs w = Inr answers" and s: "sorted answers"
      by blast
    from CSafeModeEnabled Cons.prems(1) r have "run (c # cs) w = Inr (False # answers)"
      by (simp add: SafeModeEnabled_def)
    moreover from s have "sorted (False # answers)"
      by (simp add: le_bool_def)
    ultimately show ?thesis
      by blast
  next
    case (CDestruct e)
    with Cons.prems(2) show ?thesis by simp
  qed
qed

section \<open>The claims\<close>

text \<open>
  C1, in the form the code satisfies. For every filesystem state and configuration map,
  the marker test \<open>didBootFailRecently\<close> answers true exactly when the marker file exists
  at \<open><system_temp>/FREECAD_BOOT_NOT_COMPLETE\<close>, the whole seconds from its last-modified
  time to the clock are at most \<open>12 * 3600\<close> (it is less than twelve hours and one second
  old), and it can be opened and its body, read as text (decoded, every carriage return
  dropped), equals the build identity computed now (\<open>BuildRevision\<close>, then the optional
  branch and hash, each after one space) converted to a \<^verbatim>\<open>QString\<close>; a missing or
  unreadable file gives false. The tests short-circuit in this order: the build identity
  is computed, and the configuration map touched, only after existence, freshness and the
  open have passed.
\<close>

theorem recent_failure_iff:
  "fst (didBootFailRecently e w) =
     (case files w (getBootFailDetectionFileName e) of
        None \<Rightarrow> False
      | Some marker \<Rightarrow>
          currentDateTime e - lastModified marker < (12 * 3600 + 1) * 1000
          \<and> openRead e (getBootFailDetectionFileName e)
          \<and> filter (\<lambda>c. c \<noteq> 13) (decodeText e (content marker))
              = fromStdString e (spec_build_identity (Config w)))
   \<and> snd (didBootFailRecently e w) =
       (case files w (getBootFailDetectionFileName e) of
          None \<Rightarrow> w
        | Some marker \<Rightarrow>
            if currentDateTime e - lastModified marker < (12 * 3600 + 1) * 1000
               \<and> openRead e (getBootFailDetectionFileName e)
            then w\<lparr>Config := snd (bootFileContent (Config w))\<rparr>
            else w)"
  by (simp add: didBootFailRecently_fst didBootFailRecently_snd secsTo_le_iff readAll_def
      split: option.split)

text \<open>
  A marker of this build exactly twelve hours old is detected, so is one twelve hours and
  999 milliseconds old and one whose body ends in a carriage return; a marker twelve
  hours and one second old is not, and a clean disk has nothing to detect.
\<close>

theorem recent_failure_iff_witness:
  "fst (didBootFailRecently os_ok (world_crashed (1700000000000 - 43200000)))
   \<and> fst (didBootFailRecently os_ok (world_crashed (1700000000000 - 43200999)))
   \<and> \<not> fst (didBootFailRecently os_ok (world_crashed (1700000000000 - 43201000)))
   \<and> fst (didBootFailRecently os_ok (world_crashed_cr 1700000000000))
   \<and> \<not> fst (didBootFailRecently os_ok world0)"
proof -
  have i: "fromStdString os_ok (spec_build_identity (Config (world_crashed t)))
           = filter (\<lambda>c. c \<noteq> 13) (decodeText os_ok ''1.0 main cafef00d'')"
    "fromStdString os_ok (spec_build_identity (Config (world_crashed_cr t)))
           = filter (\<lambda>c. c \<noteq> 13) (decodeText os_ok (''1.0 main cafef00d'' @ [CHR 0x0D]))" for t
    using read_ident0 by (simp_all add: identity_crashed readAll_def del: append.simps)
  have n: "files world0 ''/tmp/FREECAD_BOOT_NOT_COMPLETE'' = None"
    by (simp add: world0_def)
  show ?thesis
    using recent_failure_iff [of os_ok "world_crashed (1700000000000 - 43200000)"]
      recent_failure_iff [of os_ok "world_crashed (1700000000000 - 43200999)"]
      recent_failure_iff [of os_ok "world_crashed (1700000000000 - 43201000)"]
      recent_failure_iff [of os_ok "world_crashed_cr 1700000000000"]
      recent_failure_iff [of os_ok world0]
    by (simp add: marker_ok files_crashed os_ok_facts i n del: append.simps)
qed

text \<open>
  The test is coarser than "no more than twelve hours older" and "byte-equal": a marker
  twelve hours and half a second old is detected, and so is a marker whose body is the
  build identity followed by a carriage return.
\<close>

theorem recent_failure_not_spec_counterexample:
  "fst (didBootFailRecently os_ok (world_crashed (1700000000000 - 43200500)))
   \<and> \<not> spec_recent_failure os_ok (world_crashed (1700000000000 - 43200500))
   \<and> fst (didBootFailRecently os_ok (world_crashed_cr 1700000000000))
   \<and> \<not> spec_recent_failure os_ok (world_crashed_cr 1700000000000)"
  by (simp add: detect_crashed detect_crashed_cr spec_crashed)

text \<open>
  C2. In every call, \<open>InitializeSafeMode\<close> decides on the marker test of the world as it was
  before the call: the pointer and the warnings afterwards are functions of
  \<open>didBootFailRecently e w\<close> for the initial world \<open>w\<close>. The marker is written after the
  test: when the file can be opened for writing it carries the current time and the
  encoded build identity afterwards, and, when it can also be read, the marker test on the
  world after the call answers true exactly when that body reads back as the identity
  (as it does for any text that survives encoding and has no carriage return). So the
  marker of the current launch would be detected by a test run after the write, and is
  not detected by the launch that wrote it: with no marker before the call and no force,
  the pointer and the warnings are unchanged.
\<close>

theorem test_precedes_write:
  "\<exists>w'. InitializeSafeMode e force w = Inr w'
     \<and> tempDir w' =
         (if fst (didBootFailRecently e w) \<or> force
          then (case newTemporaryDir e of None \<Rightarrow> Null | Some p \<Rightarrow> Live p)
          else tempDir w)
     \<and> warnings w' =
         warnings w @
           (if fst (didBootFailRecently e w) \<and> newTemporaryDir e \<noteq> None
            then [''Failed boot detected, entering safe mode!''] else [])
     \<and> (files w (getBootFailDetectionFileName e) = None \<and> \<not> force \<longrightarrow>
          tempDir w' = tempDir w \<and> warnings w' = warnings w)
     \<and> (openWrite e (getBootFailDetectionFileName e) \<longrightarrow>
          files w' (getBootFailDetectionFileName e) =
            Some \<lparr>lastModified = currentDateTime e,
                  content = encodeText e (fromStdString e (fst (bootFileContent (Config w))))\<rparr>)
     \<and> (openWrite e (getBootFailDetectionFileName e)
          \<and> openRead e (getBootFailDetectionFileName e) \<longrightarrow>
          fst (didBootFailRecently e w')
          = (readAll e (encodeText e (fromStdString e (fst (bootFileContent (Config w)))))
             = fromStdString e (fst (bootFileContent (Config w)))))"
proof -
  obtain w' where i: "InitializeSafeMode e force w = Inr w'"
    by (simp add: InitializeSafeMode_eq)
  let ?m = "getBootFailDetectionFileName e"
  let ?body = "encodeText e (fromStdString e (fst (bootFileContent (Config w))))"
  have t: "tempDir w' =
         (if fst (didBootFailRecently e w) \<or> force
          then (case newTemporaryDir e of None \<Rightarrow> Null | Some p \<Rightarrow> Live p)
          else tempDir w)"
    by (rule InitializeSafeMode_tempDir [OF i])
  have l: "warnings w' =
         warnings w @
           (if fst (didBootFailRecently e w) \<and> newTemporaryDir e \<noteq> None
            then [''Failed boot detected, entering safe mode!''] else [])"
    using InitializeSafeMode_warnings [OF i] by (simp add: warning_text_def)
  have n: "\<not> fst (didBootFailRecently e w)" if "files w ?m = None"
    using that by (simp add: didBootFailRecently_def)
  have f: "files w' ?m = Some \<lparr>lastModified = currentDateTime e, content = ?body\<rparr>"
    if "openWrite e ?m"
    using InitializeSafeMode_files [OF i] marker_after_written(1) [OF that] by simp
  have d: "fst (didBootFailRecently e w')
           = (readAll e ?body = fromStdString e (fst (bootFileContent (Config w))))"
    if wr: "openWrite e ?m" and rd: "openRead e ?m"
  proof -
    have "spec_build_identity (Config w') = fst (bootFileContent (Config w))"
      using identity_after_marker [OF i wr] by (simp add: bootFileContent_fst)
    with f [OF wr] rd show ?thesis
      by (simp add: didBootFailRecently_fst secsTo_same)
  qed
  from i t l n f d show ?thesis
    by auto
qed

text \<open>
  A clean run: nothing is detected, the controller stays inactive, no warning is sent, and
  the marker written would pass the marker test.
\<close>

theorem test_precedes_write_witness:
  "case InitializeSafeMode os_ok False world0 of
     Inl f \<Rightarrow> False
   | Inr w' \<Rightarrow> tempDir w' = Null \<and> warnings w' = []
       \<and> files w' ''/tmp/FREECAD_BOOT_NOT_COMPLETE'' =
            Some \<lparr>lastModified = 1700000000000, content = ''1.0 main cafef00d''\<rparr>
       \<and> fst (didBootFailRecently os_ok w')"
proof -
  let ?m = "getBootFailDetectionFileName os_ok"
  let ?body = "encodeText os_ok (fromStdString os_ok (fst (bootFileContent (Config world0))))"
  have m: "files world0 ?m = None \<and> \<not> False"
    by (simp add: world0_def)
  have o: "openWrite os_ok ?m" "openRead os_ok ?m" "currentDateTime os_ok = 1700000000000"
    by (simp_all add: os_ok_facts)
  have z: "tempDir world0 = Null" "warnings world0 = []"
    by (simp_all add: world0_def)
  have b0: "?body = ''1.0 main cafef00d''"
    by (simp add: ascii_roundtrip ident0)
  have r0: "readAll os_ok ?body = fromStdString os_ok (fst (bootFileContent (Config world0)))"
    by (simp only: b0) (simp add: read_ident0 ident0)
  from test_precedes_write [of os_ok False world0]
  obtain w' where i: "InitializeSafeMode os_ok False world0 = Inr w'"
    and a: "files world0 ?m = None \<and> \<not> False \<longrightarrow>
          tempDir w' = tempDir world0 \<and> warnings w' = warnings world0"
    and b: "openWrite os_ok ?m \<longrightarrow> files w' ?m =
            Some \<lparr>lastModified = currentDateTime os_ok, content = ?body\<rparr>"
    and c: "openWrite os_ok ?m \<and> openRead os_ok ?m \<longrightarrow>
          fst (didBootFailRecently os_ok w')
          = (readAll os_ok ?body = fromStdString os_ok (fst (bootFileContent (Config world0))))"
    by blast
  from a m z have "tempDir w' = Null \<and> warnings w' = []"
    by simp
  moreover from b o have "files w' ''/tmp/FREECAD_BOOT_NOT_COMPLETE'' =
            Some \<lparr>lastModified = 1700000000000, content = ''1.0 main cafef00d''\<rparr>"
    by (simp only: b0) (simp add: marker_ok)
  moreover from c o r0 have "fst (didBootFailRecently os_ok w')"
    by simp
  ultimately show ?thesis
    using i by simp
qed

text \<open>
  C3, in the form the code satisfies. When \<open>InitializeSafeMode\<close> has engaged safe mode (a failure was detected or
  safe mode was forced, and the temporary directory was created), \<open>SafeModeEnabled\<close> is true,
  the scratch root exists, and every one of the six profile keys resolves to
  \<open><root><sep><key><sep>\<close>, a path that lies under the scratch root and ends with the
  path separator. The directory of a key exists afterwards exactly when \<open>mkpath\<close>
  succeeded for it or it existed before: the result of \<open>mkpath\<close> is discarded, so a key
  whose directory could not be created still resolves to the path.
\<close>

theorem redirection_complete:
  assumes "fst (didBootFailRecently e w) \<or> force"
    and "newTemporaryDir e = Some root"
  shows "\<exists>w'. InitializeSafeMode e force w = Inr w'
     \<and> SafeModeEnabled w' \<and> tempDir w' = Live root \<and> root \<in> dirs w'
     \<and> (\<forall>k\<in>set profile_dirs.
           Config w' k = Some (scratch_path e root k)
           \<and> under e root (scratch_path e root k)
           \<and> last (scratch_path e root k) = PATHSEP e
           \<and> (scratch_path e root k \<in> dirs w')
               = (mkpathOk e (scratch_path e root k) \<or> scratch_path e root k \<in> dirs w))"
proof -
  obtain w' where i: "InitializeSafeMode e force w = Inr w'"
    using InitializeSafeMode_total by blast
  have t: "tempDir w' = Live root"
    using InitializeSafeMode_tempDir [OF i] assms by auto
  have d: "dirs w' = insert root (dirs w) \<union> {q \<in> scratch_path e root ` set profile_dirs. mkpathOk e q}"
    using InitializeSafeMode_dirs [OF i] assms by auto
  have c: "Config w' k = Some (scratch_path e root k)" if "k \<in> set profile_dirs" for k
    using InitializeSafeMode_Config [OF i that] assms by auto
  have "(scratch_path e root k \<in> dirs w')
        = (mkpathOk e (scratch_path e root k) \<or> scratch_path e root k \<in> dirs w)"
    if "k \<in> set profile_dirs" for k
    using that by (auto simp: d scratch_path_neq)
  with i t d c show ?thesis
    by (simp add: SafeModeEnabled_def scratch_path_under scratch_path_last)
qed

text \<open>
  Forced safe mode on a clean disk where directories can be created.
\<close>

theorem redirection_complete_witness:
  "\<exists>w'. InitializeSafeMode os_ok True world0 = Inr w'
     \<and> SafeModeEnabled w'
     \<and> Config w' ''UserMacroPath'' = Some ''/tmp/FreeCAD-aB3dEf/UserMacroPath/''
     \<and> ''/tmp/FreeCAD-aB3dEf/UserMacroPath/'' \<in> dirs w'"
proof -
  have p: "newTemporaryDir os_ok = Some ''/tmp/FreeCAD-aB3dEf''"
    "PATHSEP os_ok = CHR ''/''" "mkpathOk os_ok = (\<lambda>p. True)"
    by (simp_all add: os_ok_def)
  have f: "fst (didBootFailRecently os_ok world0) \<or> True"
    by simp
  from redirection_complete [OF f p(1)]
  obtain w' where i: "InitializeSafeMode os_ok True world0 = Inr w'" and s: "SafeModeEnabled w'"
    and k: "\<forall>k\<in>set profile_dirs.
           Config w' k = Some (scratch_path os_ok ''/tmp/FreeCAD-aB3dEf'' k)
           \<and> under os_ok ''/tmp/FreeCAD-aB3dEf'' (scratch_path os_ok ''/tmp/FreeCAD-aB3dEf'' k)
           \<and> last (scratch_path os_ok ''/tmp/FreeCAD-aB3dEf'' k) = PATHSEP os_ok
           \<and> (scratch_path os_ok ''/tmp/FreeCAD-aB3dEf'' k \<in> dirs w')
               = (mkpathOk os_ok (scratch_path os_ok ''/tmp/FreeCAD-aB3dEf'' k)
                  \<or> scratch_path os_ok ''/tmp/FreeCAD-aB3dEf'' k \<in> dirs world0)"
    by blast
  have m: "''UserMacroPath'' \<in> set profile_dirs"
    by (simp add: profile_dirs_def)
  from bspec [OF k m]
  have "Config w' ''UserMacroPath'' = Some ''/tmp/FreeCAD-aB3dEf/UserMacroPath/''
     \<and> ''/tmp/FreeCAD-aB3dEf/UserMacroPath/'' \<in> dirs w'"
    by (simp add: scratch_path_def p)
  with i s show ?thesis
    by simp
qed

text \<open>
  Existence of the directories is not guaranteed: forced safe mode on a system where
  \<open>mkpath\<close> fails leaves \<open>SafeModeEnabled\<close> true and \<open>UserAppData\<close> bound to a path that
  is no directory.
\<close>

theorem redirection_without_directory_counterexample:
  "\<not> isl (InitializeSafeMode os_nomkdir True world0)
   \<and> SafeModeEnabled (projr (InitializeSafeMode os_nomkdir True world0))
   \<and> Config (projr (InitializeSafeMode os_nomkdir True world0)) ''UserAppData''
       = Some ''/tmp/FreeCAD-aB3dEf/UserAppData/''
   \<and> ''/tmp/FreeCAD-aB3dEf/UserAppData/''
       \<notin> dirs (projr (InitializeSafeMode os_nomkdir True world0))"
proof -
  obtain w' where i: "InitializeSafeMode os_nomkdir True world0 = Inr w'"
    using InitializeSafeMode_total by blast
  have p: "newTemporaryDir os_nomkdir = Some ''/tmp/FreeCAD-aB3dEf''"
    "PATHSEP os_nomkdir = CHR ''/''" "mkpathOk os_nomkdir = (\<lambda>p. False)"
    by (simp_all add: os_nomkdir_def os_ok_def)
  have "SafeModeEnabled w'"
    using InitializeSafeMode_tempDir [OF i] by (simp add: SafeModeEnabled_def p)
  moreover have "Config w' ''UserAppData'' = Some ''/tmp/FreeCAD-aB3dEf/UserAppData/''"
    using InitializeSafeMode_Config [OF i, of "''UserAppData''"]
    by (simp add: profile_dirs_def p scratch_path_def)
  moreover have "''/tmp/FreeCAD-aB3dEf/UserAppData/'' \<notin> dirs w'"
    using InitializeSafeMode_dirs [OF i] by (simp add: p world0_def)
  ultimately show ?thesis
    by (simp add: i)
qed

text \<open>
  C4. \<open>Destruct\<close> called twice. On an inactive controller both calls do nothing. On an
  active controller the first call deletes the object and leaves the pointer as it was,
  so the second call deletes the same object again: \<open>Destruct\<close> is not idempotent there,
  where \<open>createTemporaryBaseDir\<close> resets the pointer after its own \<^verbatim>\<open>delete\<close>.
\<close>

theorem Destruct_twice_double_free:
  "Destruct os_ok world0 = Inr world0
   \<and> \<not> isl (InitializeSafeMode os_ok True world0)
   \<and> SafeModeEnabled (projr (InitializeSafeMode os_ok True world0))
   \<and> \<not> isl (Destruct os_ok (projr (InitializeSafeMode os_ok True world0)))
   \<and> Destruct os_ok (projr (Destruct os_ok (projr (InitializeSafeMode os_ok True world0))))
       = Inl DoubleFree"
proof -
  have n: "Destruct os_ok world0 = Inr world0"
    by (simp add: Destruct_def world0_def)
  obtain w1 where i: "InitializeSafeMode os_ok True world0 = Inr w1"
    using InitializeSafeMode_total by blast
  have t: "tempDir w1 = Live ''/tmp/FreeCAD-aB3dEf''"
    using InitializeSafeMode_tempDir [OF i] by (simp add: os_ok_def)
  from Destruct_Live [OF t, of os_ok] obtain w2 where d: "Destruct os_ok w1 = Inr w2"
    and f: "Destruct os_ok w2 = Inl DoubleFree"
    by blast
  from n t show ?thesis
    by (simp add: i d f SafeModeEnabled_def)
qed

text \<open>
  C5. Within a process lifetime, which starts with the null pointer and calls
  \<open>InitializeSafeMode\<close> at most once, every sequence of calls to the public operations
  that does not include \<open>Destruct\<close> returns normally and the answers of \<open>SafeModeEnabled\<close>
  are monotone: once one is true, every later one is true. The controller never goes from
  active back to inactive.
\<close>

theorem active_stays_active:
  assumes "tempDir w = Null"
    and "\<forall>c\<in>set cs. \<not> is_Destruct c"
    and "length (filter is_InitializeSafeMode cs) \<le> 1"
  shows "\<exists>answers. run cs w = Inr answers
     \<and> (\<forall>i j. i \<le> j \<longrightarrow> j < length answers \<longrightarrow> answers ! i \<longrightarrow> answers ! j)"
proof -
  from run_one_InitializeSafeMode [OF assms] obtain answers where r: "run cs w = Inr answers"
    and s: "sorted answers"
    by blast
  from s have "\<forall>i j. i \<le> j \<longrightarrow> j < length answers \<longrightarrow> answers ! i \<longrightarrow> answers ! j"
    by (simp add: sorted_iff_nth_mono le_bool_def)
  with r show ?thesis
    by blast
qed

text \<open>
  A query, a forced start, a query, completion, a query: the answers are false, true, true.
\<close>

theorem active_stays_active_witness:
  "run [CSafeModeEnabled, CInitializeSafeMode os_ok True, CSafeModeEnabled,
        CBootUpComplete os_ok, CSafeModeEnabled] world0
     = Inr [False, True, True]"
proof -
  let ?cs = "[CSafeModeEnabled, CInitializeSafeMode os_ok True, CSafeModeEnabled,
        CBootUpComplete os_ok, CSafeModeEnabled]"
  obtain w1 where i1: "InitializeSafeMode os_ok True world0 = Inr w1"
    using InitializeSafeMode_total by blast
  have s0: "tempDir world0 = Null"
    by (simp add: world0_def)
  have s1: "SafeModeEnabled w1"
    using InitializeSafeMode_tempDir [OF i1] by (simp add: SafeModeEnabled_def os_ok_def)
  have d: "\<forall>c\<in>set ?cs. \<not> is_Destruct c"
    by simp
  have n: "length (filter is_InitializeSafeMode ?cs) \<le> 1"
    by simp
  from active_stays_active [OF s0 d n] obtain answers where r: "run ?cs world0 = Inr answers"
    and m: "\<forall>i j. i \<le> j \<longrightarrow> j < length answers \<longrightarrow> answers ! i \<longrightarrow> answers ! j"
    by blast
  from r i1 s0 s1 have "answers = [False, True, SafeModeEnabled (BootUpComplete os_ok w1)]"
    by (auto simp: SafeModeEnabled_def)
  moreover from this m [rule_format, of 1 2] have "SafeModeEnabled (BootUpComplete os_ok w1)"
    by simp
  ultimately show ?thesis
    using r by simp
qed

text \<open>
  C6. When the temporary directory cannot be created, \<open>InitializeSafeMode\<close> returns normally
  for either value of \<open>forceSafeMode\<close>, \<open>SafeModeEnabled\<close> is false afterwards, each of the
  six profile keys has the value it had before the call, and no warning is sent. (The
  provisioner runs when safe mode is forced or a failure was detected; when it does not
  run, the statement is about a controller that was inactive before the call.)
\<close>

theorem provisioner_failure_is_silent:
  assumes "newTemporaryDir e = None"
    and "force \<or> fst (didBootFailRecently e w) \<or> tempDir w = Null"
  shows "\<exists>w'. InitializeSafeMode e force w = Inr w'
     \<and> \<not> SafeModeEnabled w'
     \<and> (\<forall>k\<in>set profile_dirs. Config w' k = Config w k)
     \<and> warnings w' = warnings w"
proof -
  obtain w' where i: "InitializeSafeMode e force w = Inr w'"
    using InitializeSafeMode_total by blast
  have "tempDir w' = Null"
    using InitializeSafeMode_tempDir [OF i] assms by auto
  moreover have "Config w' k = Config w k" if "k \<in> set profile_dirs" for k
    using InitializeSafeMode_Config [OF i that] assms(1) by simp
  moreover have "warnings w' = warnings w"
    using InitializeSafeMode_warnings [OF i] assms(1) by simp
  ultimately show ?thesis
    using i by (simp add: SafeModeEnabled_def)
qed

text \<open>
  Provisioning fails under force on a clean disk, and after a detected failure.
\<close>

theorem provisioner_failure_is_silent_witness:
  "(\<exists>w'. InitializeSafeMode os_noprov True world0 = Inr w'
      \<and> \<not> SafeModeEnabled w' \<and> Config w' ''UserAppData'' = None \<and> warnings w' = [])
   \<and> (\<exists>w'. InitializeSafeMode os_noprov False (world_crashed 1700000000000) = Inr w'
      \<and> \<not> SafeModeEnabled w' \<and> Config w' ''UserAppData'' = None \<and> warnings w' = [])"
proof -
  have n: "newTemporaryDir os_noprov = None"
    by (simp add: os_noprov_def)
  have k: "''UserAppData'' \<in> set profile_dirs"
    by (simp add: profile_dirs_def)
  have f: "True \<or> fst (didBootFailRecently os_noprov world0) \<or> tempDir world0 = Null"
    by simp
  have "fst (didBootFailRecently os_noprov (world_crashed 1700000000000))"
    by (simp add: detect_crashed)
  then have d: "False \<or> fst (didBootFailRecently os_noprov (world_crashed 1700000000000))
      \<or> tempDir (world_crashed 1700000000000) = Null"
    by simp
  from provisioner_failure_is_silent [OF n f]
  obtain w' where "InitializeSafeMode os_noprov True world0 = Inr w'" "\<not> SafeModeEnabled w'"
    "\<forall>k\<in>set profile_dirs. Config w' k = Config world0 k" "warnings w' = warnings world0"
    by blast
  with k have a: "\<exists>w'. InitializeSafeMode os_noprov True world0 = Inr w'
      \<and> \<not> SafeModeEnabled w' \<and> Config w' ''UserAppData'' = None \<and> warnings w' = []"
    by (simp add: world0_def)
  from provisioner_failure_is_silent [OF n d]
  obtain w' where "InitializeSafeMode os_noprov False (world_crashed 1700000000000) = Inr w'"
    "\<not> SafeModeEnabled w'"
    "\<forall>k\<in>set profile_dirs. Config w' k = Config (world_crashed 1700000000000) k"
    "warnings w' = warnings (world_crashed 1700000000000)"
    by blast
  with k have "\<exists>w'. InitializeSafeMode os_noprov False (world_crashed 1700000000000) = Inr w'
      \<and> \<not> SafeModeEnabled w' \<and> Config w' ''UserAppData'' = None \<and> warnings w' = []"
    by (simp add: world0_def world_crashed_def)
  with a show ?thesis
    by simp
qed

text \<open>
  C7. \<open>InitializeSafeMode\<close> always returns, and it appends to the warnings exactly the one
  line "Failed boot detected, entering safe mode!" when a previous failure was detected
  and the temporary directory was created, and nothing otherwise: nothing when safe mode
  is entered by force alone, nothing when provisioning fails.
\<close>

theorem warning_iff_detected_and_provisioned:
  "\<exists>w'. InitializeSafeMode e force w = Inr w'
     \<and> warnings w' =
         warnings w @
           (if fst (didBootFailRecently e w) \<and> newTemporaryDir e \<noteq> None
            then [''Failed boot detected, entering safe mode!''] else [])"
proof -
  obtain w' where i: "InitializeSafeMode e force w = Inr w'"
    using InitializeSafeMode_total by blast
  from InitializeSafeMode_warnings [OF i] i show ?thesis
    by (simp add: warning_text_def)
qed

text \<open>
  One warning after a detected failure, none under force on a clean disk, none when the
  failure is detected and provisioning fails.
\<close>

theorem warning_iff_detected_and_provisioned_witness:
  "(\<exists>w'. InitializeSafeMode os_ok False (world_crashed 1700000000000) = Inr w'
      \<and> warnings w' = [''Failed boot detected, entering safe mode!''])
   \<and> (\<exists>w'. InitializeSafeMode os_ok True world0 = Inr w' \<and> warnings w' = [])
   \<and> (\<exists>w'. InitializeSafeMode os_noprov False (world_crashed 1700000000000) = Inr w'
      \<and> warnings w' = [])"
proof -
  have d: "fst (didBootFailRecently os_ok (world_crashed 1700000000000))"
    by (simp add: detect_crashed)
  have n: "newTemporaryDir os_ok \<noteq> None" "newTemporaryDir os_noprov = None"
    by (simp_all add: os_ok_def os_noprov_def)
  have z: "warnings (world_crashed 1700000000000) = []" "warnings world0 = []"
    by (simp_all add: world_crashed_def world0_def)
  from warning_iff_detected_and_provisioned [of os_ok False "world_crashed 1700000000000"] d n z
  have a: "\<exists>w'. InitializeSafeMode os_ok False (world_crashed 1700000000000) = Inr w'
      \<and> warnings w' = [''Failed boot detected, entering safe mode!'']"
    by simp
  from warning_iff_detected_and_provisioned [of os_ok True world0] clean_no_failure z
  have b: "\<exists>w'. InitializeSafeMode os_ok True world0 = Inr w' \<and> warnings w' = []"
    by simp
  from warning_iff_detected_and_provisioned [of os_noprov False "world_crashed 1700000000000"] n z
  have c: "\<exists>w'. InitializeSafeMode os_noprov False (world_crashed 1700000000000) = Inr w'
      \<and> warnings w' = []"
    by simp
  from a b c show ?thesis
    by simp
qed

text \<open>
  C8. With a live scratch root \<open>base\<close>, the rebinder handles the six keys in the order
  \<open>UserAppData\<close>, \<open>UserConfigPath\<close>, \<open>UserCachePath\<close>, \<open>AppTempPath\<close>, \<open>UserMacroPath\<close>,
  \<open>UserHomePath\<close>, and stores \<open><base><sep><key><sep>\<close> under each key whatever \<open>mkpath\<close>
  answers; the directory exists afterwards only if \<open>mkpath\<close> succeeded or it existed
  before. Nothing is undone: the pointer stays live and \<open>SafeModeEnabled\<close> stays true.
\<close>

theorem rebinder_writes_every_key:
  assumes "tempDir w = Live base"
  shows "\<exists>w'. replaceDirs e w = Inr w'
     \<and> w' = replaceDir e base ''UserHomePath'' (replaceDir e base ''UserMacroPath''
             (replaceDir e base ''AppTempPath'' (replaceDir e base ''UserCachePath''
             (replaceDir e base ''UserConfigPath'' (replaceDir e base ''UserAppData'' w)))))
     \<and> (\<forall>d\<in>set profile_dirs. Config w' d = Some (base @ [PATHSEP e] @ d @ [PATHSEP e]))
     \<and> (\<forall>d\<in>set profile_dirs.
           (base @ [PATHSEP e] @ d @ [PATHSEP e] \<in> dirs w')
           = (mkpathOk e (base @ [PATHSEP e] @ d @ [PATHSEP e])
              \<or> base @ [PATHSEP e] @ d @ [PATHSEP e] \<in> dirs w))
     \<and> tempDir w' = Live base \<and> SafeModeEnabled w'"
proof -
  let ?w' = "replaceDirs_loop e base profile_dirs w"
  have r: "replaceDirs e w = Inr ?w'"
    using assms by (simp add: replaceDirs_def)
  have u: "?w' = replaceDir e base ''UserHomePath'' (replaceDir e base ''UserMacroPath''
             (replaceDir e base ''AppTempPath'' (replaceDir e base ''UserCachePath''
             (replaceDir e base ''UserConfigPath'' (replaceDir e base ''UserAppData'' w)))))"
    by (simp add: profile_dirs_def)
  have c: "\<forall>d\<in>set profile_dirs. Config ?w' d = Some (base @ [PATHSEP e] @ d @ [PATHSEP e])"
    by (simp add: replaceDirs_loop_Config scratch_path_def)
  have m: "\<forall>d\<in>set profile_dirs.
           (base @ [PATHSEP e] @ d @ [PATHSEP e] \<in> dirs ?w')
           = (mkpathOk e (base @ [PATHSEP e] @ d @ [PATHSEP e])
              \<or> base @ [PATHSEP e] @ d @ [PATHSEP e] \<in> dirs w)"
    by (auto simp: replaceDirs_loop_dirs scratch_path_def)
  have t: "tempDir ?w' = Live base"
    using assms by (simp add: replaceDirs_loop_frame)
  from r u c m t show ?thesis
    by (simp add: SafeModeEnabled_def)
qed

text \<open>
  On a system where no directory can be created the key is written all the same.
\<close>

theorem rebinder_writes_every_key_witness:
  "\<exists>w'. replaceDirs os_nomkdir (world0\<lparr>tempDir := Live ''/tmp/FreeCAD-aB3dEf''\<rparr>) = Inr w'
     \<and> Config w' ''UserHomePath'' = Some ''/tmp/FreeCAD-aB3dEf/UserHomePath/''
     \<and> ''/tmp/FreeCAD-aB3dEf/UserHomePath/'' \<notin> dirs w'
     \<and> SafeModeEnabled w'"
proof -
  have t: "tempDir (world0\<lparr>tempDir := Live ''/tmp/FreeCAD-aB3dEf''\<rparr>) = Live ''/tmp/FreeCAD-aB3dEf''"
    by simp
  have p: "PATHSEP os_nomkdir = CHR ''/''" "mkpathOk os_nomkdir = (\<lambda>p. False)"
    by (simp_all add: os_nomkdir_def os_ok_def)
  have h: "''UserHomePath'' \<in> set profile_dirs"
    by (simp add: profile_dirs_def)
  from rebinder_writes_every_key [OF t, of os_nomkdir]
  obtain w' where r: "replaceDirs os_nomkdir (world0\<lparr>tempDir := Live ''/tmp/FreeCAD-aB3dEf''\<rparr>) = Inr w'"
    and c: "\<forall>d\<in>set profile_dirs.
         Config w' d = Some (''/tmp/FreeCAD-aB3dEf'' @ [PATHSEP os_nomkdir] @ d @ [PATHSEP os_nomkdir])"
    and m: "\<forall>d\<in>set profile_dirs.
           (''/tmp/FreeCAD-aB3dEf'' @ [PATHSEP os_nomkdir] @ d @ [PATHSEP os_nomkdir] \<in> dirs w')
           = (mkpathOk os_nomkdir (''/tmp/FreeCAD-aB3dEf'' @ [PATHSEP os_nomkdir] @ d @ [PATHSEP os_nomkdir])
              \<or> ''/tmp/FreeCAD-aB3dEf'' @ [PATHSEP os_nomkdir] @ d @ [PATHSEP os_nomkdir]
                   \<in> dirs (world0\<lparr>tempDir := Live ''/tmp/FreeCAD-aB3dEf''\<rparr>))"
    and s: "SafeModeEnabled w'"
    by blast
  from bspec [OF c h] have "Config w' ''UserHomePath'' = Some ''/tmp/FreeCAD-aB3dEf/UserHomePath/''"
    by (simp add: p)
  moreover from bspec [OF m h] have "''/tmp/FreeCAD-aB3dEf/UserHomePath/'' \<notin> dirs w'"
    by (simp add: p world0_def)
  ultimately show ?thesis
    using r s by simp
qed

text \<open>
  C9. With a readable marker whose body reads as the build identity, the marker test
  rejects exactly when \<open>secsTo\<close> from the marker's last-modified time to the clock exceeds
  \<open>12 * 3600\<close>, and so only when the clock is strictly more than \<open>12 * 3600\<close> seconds past
  that time: a marker exactly twelve hours old passes, and so does a marker whose
  last-modified time lies in the future.
\<close>

theorem freshness_boundary:
  assumes "files w (getBootFailDetectionFileName e) = Some marker"
    and "openRead e (getBootFailDetectionFileName e)"
    and "readAll e (content marker) = fromStdString e (fst (bootFileContent (Config w)))"
  shows "(\<not> fst (didBootFailRecently e w))
           = (secsTo (lastModified marker) (currentDateTime e) > 12 * 3600)
    \<and> (\<not> fst (didBootFailRecently e w) \<longrightarrow>
          currentDateTime e - lastModified marker > 12 * 3600 * 1000)
    \<and> (lastModified marker = currentDateTime e - 12 * 3600 * 1000 \<longrightarrow>
          fst (didBootFailRecently e w))
    \<and> (currentDateTime e < lastModified marker \<longrightarrow> fst (didBootFailRecently e w))"
proof -
  from assms have d: "fst (didBootFailRecently e w)
      = (secsTo (lastModified marker) (currentDateTime e) \<le> 43200)"
    by (simp add: didBootFailRecently_fst bootFileContent_fst)
  then show ?thesis
    by (auto simp: secsTo_le_iff secsTo_gt_iff)
qed

text \<open>
  Exactly twelve hours old and five hundred seconds in the future pass; twelve hours and
  one second is rejected.
\<close>

theorem freshness_boundary_witness:
  "fst (didBootFailRecently os_ok (world_crashed (1700000000000 - 12 * 3600 * 1000)))
   \<and> fst (didBootFailRecently os_ok (world_crashed (1700000000000 + 500000)))
   \<and> \<not> fst (didBootFailRecently os_ok (world_crashed (1700000000000 - 12 * 3600 * 1000 - 1000)))"
proof -
  let ?m = "\<lambda>t. \<lparr>lastModified = t, content = ''1.0 main cafef00d''\<rparr>"
  have f: "files (world_crashed t) (getBootFailDetectionFileName os_ok) = Some (?m t)" for t
    by (simp add: marker_ok files_crashed)
  have r: "openRead os_ok (getBootFailDetectionFileName os_ok)"
    by (simp add: os_ok_facts)
  have c: "readAll os_ok (content (?m t))
           = fromStdString os_ok (fst (bootFileContent (Config (world_crashed t))))" for t
    using ident0 by (simp add: world_crashed_def read_ident0)
  have n: "currentDateTime os_ok = 1700000000000"
    by (simp add: os_ok_facts)
  show ?thesis
    using freshness_boundary [OF f r c, of "1700000000000 - 12 * 3600 * 1000"]
      freshness_boundary [OF f r c, of "1700000000000 + 500000"]
      freshness_boundary [OF f r c, of "1700000000000 - 12 * 3600 * 1000 - 1000"]
    by (simp add: n secsTo_def)
qed

text \<open>
  C10. Computing the build identity leaves the configuration map as it was, except that an
  absent \<open>BuildRevision\<close> is inserted with the empty string; absent \<open>BuildRevisionBranch\<close>
  and \<open>BuildRevisionHash\<close> stay absent. The insertion reaches the application's map through
  the marker write, through the marker test once it gets to the comparison, and so through
  \<open>InitializeSafeMode\<close> without force on a clean disk.
\<close>

theorem identity_inserts_BuildRevision:
  "snd (bootFileContent c) =
     (if c ''BuildRevision'' = None then c(''BuildRevision'' \<mapsto> '''') else c)
   \<and> (c ''BuildRevisionBranch'' = None \<longrightarrow> snd (bootFileContent c) ''BuildRevisionBranch'' = None)
   \<and> (c ''BuildRevisionHash'' = None \<longrightarrow> snd (bootFileContent c) ''BuildRevisionHash'' = None)
   \<and> (Config w ''BuildRevision'' = None \<and> openWrite e (getBootFailDetectionFileName e) \<longrightarrow>
        Config (createBootFile e w) = (Config w)(''BuildRevision'' \<mapsto> ''''))
   \<and> (Config w ''BuildRevision'' = None
        \<and> files w (getBootFailDetectionFileName e) = Some marker
        \<and> secsTo (lastModified marker) (currentDateTime e) \<le> 12 * 3600
        \<and> openRead e (getBootFailDetectionFileName e) \<longrightarrow>
        Config (snd (didBootFailRecently e w)) = (Config w)(''BuildRevision'' \<mapsto> ''''))
   \<and> (Config w ''BuildRevision'' = None
        \<and> files w (getBootFailDetectionFileName e) = None
        \<and> openWrite e (getBootFailDetectionFileName e) \<longrightarrow>
        (\<exists>w'. InitializeSafeMode e False w = Inr w'
           \<and> Config w' = (Config w)(''BuildRevision'' \<mapsto> '''')))"
proof -
  have a: "snd (bootFileContent c) =
     (if c ''BuildRevision'' = None then c(''BuildRevision'' \<mapsto> '''') else c)"
    by (rule bootFileContent_snd)
  have b: "snd (bootFileContent c) ''BuildRevisionBranch'' = c ''BuildRevisionBranch''"
    "snd (bootFileContent c) ''BuildRevisionHash'' = c ''BuildRevisionHash''"
    by (simp_all add: bootFileContent_other)
  have cr: "Config (createBootFile e w) = (Config w)(''BuildRevision'' \<mapsto> '''')"
    if "Config w ''BuildRevision'' = None" "openWrite e (getBootFailDetectionFileName e)"
    using that by (simp add: createBootFile_eq bootFileContent_snd)
  have d: "Config (snd (didBootFailRecently e w)) = (Config w)(''BuildRevision'' \<mapsto> '''')"
    if "Config w ''BuildRevision'' = None" "files w (getBootFailDetectionFileName e) = Some marker"
      "secsTo (lastModified marker) (currentDateTime e) \<le> 12 * 3600"
      "openRead e (getBootFailDetectionFileName e)"
    using that by (simp add: didBootFailRecently_snd bootFileContent_snd)
  have i: "\<exists>w'. InitializeSafeMode e False w = Inr w'
           \<and> Config w' = (Config w)(''BuildRevision'' \<mapsto> '''')"
    if "Config w ''BuildRevision'' = None" "files w (getBootFailDetectionFileName e) = None"
      "openWrite e (getBootFailDetectionFileName e)"
  proof -
    from that(2) have n: "didBootFailRecently e w = (False, w)"
      by (simp add: didBootFailRecently_def)
    then have "marker_after e w = createBootFile e w"
      by (simp add: marker_after_def)
    with n cr [OF that(1) that(3)] show ?thesis
      by (simp add: InitializeSafeMode_eq)
  qed
  from a b cr d i show ?thesis
    by simp
qed

text \<open>
  An empty configuration map gains the key \<open>BuildRevision\<close> in a clean run.
\<close>

theorem identity_inserts_BuildRevision_witness:
  "Config world_norev ''BuildRevision'' = None
   \<and> snd (bootFileContent (Config world_norev)) = [''BuildRevision'' \<mapsto> '''']
   \<and> (\<exists>w'. InitializeSafeMode os_ok False world_norev = Inr w'
         \<and> Config w' = [''BuildRevision'' \<mapsto> ''''])"
proof -
  have c: "Config world_norev = Map.empty"
    by (simp add: world_norev_def)
  have f: "files world_norev (getBootFailDetectionFileName os_ok) = None"
    by (simp add: world_norev_def world0_def)
  have o: "openWrite os_ok (getBootFailDetectionFileName os_ok)"
    by (simp add: os_ok_def)
  from identity_inserts_BuildRevision [of "Config world_norev" world_norev os_ok] c f o
  show ?thesis
    by simp
qed

end
